theory Spec2Isabelle
  imports Complex_Main
begin

section \<open>The DID class of src/index.ts\<close>

text \<open>
  The class \<open>DID\<close> keeps three private fields (\<open>_client\<close>, \<open>_id\<close>, \<open>_resolver\<close>) and
  orchestrates calls to collaborators: the RPC provider, the DID resolver, the did-jwt
  functions, dag-jose-utils and the helpers of \<open>./utils\<close>. The collaborators are
  parameters of the model (the record \<open>env\<close>); every \<open>throw\<close> of the source and every
  failure of a collaborator is a value \<open>Inl e\<close>; every method that changes the object or
  calls a collaborator returns the state it leaves behind, also when it throws.
\<close>

subsection \<open>Errors\<close>

text \<open>
  The source throws \<open>Error\<close> objects told apart by their message:
  \<^item> \<open>NoProvider\<close>: 'No provider available';
  \<^item> \<open>ProviderConflict\<close>: 'A different provider is already set, ...';
  \<^item> \<open>NotAuthenticated\<close>: 'DID is not authenticated';
  \<^item> \<open>InvalidAuthenticationResponse r\<close>: 'Invalid authencation response, r';
  \<^item> \<open>MissingKid\<close>: 'No "kid" found in jws';
  \<^item> \<open>TypeError\<close>: the runtime's error on reading a property of \<open>undefined\<close>;
  \<^item> \<open>Thrown m\<close>: whatever a collaborator throws or rejects with.
\<close>

datatype error =
    NoProvider
  | ProviderConflict
  | NotAuthenticated
  | InvalidAuthenticationResponse string
  | MissingKid
  | TypeError
  | Thrown string

subsection \<open>Data\<close>

type_synonym Uint8Array = "nat list"

text \<open>
  A \<open>DIDProvider\<close> is an \<open>RPCConnection\<close> object. The source compares connections with
  \<open>!==\<close>, that is by object identity, so a connection is modelled by its reference; what
  the provider behind a reference answers is part of \<open>env\<close>.
\<close>

type_synonym DIDProvider = nat

record RPCClient =
  connection :: DIDProvider

text \<open>
  A JSON object (\<open>Record<string, any>\<close>) as far as index.ts looks into it: the properties
  the source reads (\<open>kid\<close> of a header; \<open>did\<close>, \<open>nonce\<close>, \<open>aud\<close>, \<open>exp\<close> of an
  authentication response). A property is either absent (\<open>None\<close>, JavaScript's
  \<open>undefined\<close>) or holds a value of the type the TypeScript declarations give it
  (\<open>.kid as string\<close>, \<open>as AuthenticateResponse\<close>); the casts are unchecked, so an absent
  property flows on as \<open>undefined\<close>. The property \<open>exp\<close> is the field \<open>exp_num\<close>.
\<close>

record JSONObject =
  kid :: "string option"
  did :: "string option"
  nonce :: "string option"
  aud :: "string option"
  exp_num :: "rat option"

text \<open>did-resolver's \<open>PublicKey\<close> and \<open>DIDDocument\<close>: the properties the source reads.\<close>

record PublicKey =
  publicKeyHex :: "string option"

record DIDDocument =
  publicKey :: "PublicKey list"

text \<open>
  A \<open>Resolver\<close> object is what its \<open>resolve\<close> method answers. The argument is a
  \<open>string option\<close> because \<open>createJWE\<close> passes \<open>recipients[0]\<close>, which is
  \<open>undefined\<close> for an empty array.
\<close>

type_synonym Resolver = "string option \<Rightarrow> error + DIDDocument"

datatype CID = CID (bytes: Uint8Array)

text \<open>
  The declaration of \<open>DagJWS\<close> is in \<open>./utils\<close>: a payload, a list of signatures
  (protected header and signature, both base64url text) and an optional link. index.ts
  reads \<open>payload\<close> and writes \<open>link\<close>.
\<close>

record DagJWS =
  payload :: string
  signatures :: "(string \<times> string) list"
  link :: "CID option"

datatype JWSInput = Compact string | Dag DagJWS

record AuthenticateOptions =
  auth_provider :: "DIDProvider option"
  auth_aud :: "string option"
  auth_paths :: "string list option"

record AuthenticateParams =
  params_nonce :: string
  params_aud :: "string option"
  params_paths :: "string list option"

record CreateJWSOptions =
  opt_did :: "string option"
  opt_protected :: "JSONObject option"
  opt_linkedBlock :: "string option"

text \<open>\<open>{...options, payload}\<close>, with the payload a string as \<open>createDagJWS\<close> passes it.\<close>

record CreateJWSParams =
  jws_did :: "string option"
  jws_protected :: "JSONObject option"
  jws_linkedBlock :: "string option"
  jws_payload :: string

record CreateJWSResult =
  jws :: DagJWS

record DagJWSResult =
  dag_jws :: DagJWS
  dag_linkedBlock :: Uint8Array

record VerifyJWSResult =
  verified_kid :: string
  verified_payload :: "JSONObject option"

record CreateJWEOptions =
  protectedHeader :: "JSONObject option"
  aad :: "Uint8Array option"

text \<open>\<open>{...options, cleartext, recipients: recepients}\<close>\<close>

record CreateJWEParams =
  jwe_protectedHeader :: "JSONObject option"
  jwe_aad :: "Uint8Array option"
  jwe_cleartext :: Uint8Array
  jwe_recipients :: "string list"

text \<open>did-jwt's \<open>JWE\<close> and \<open>Encrypter\<close> are opaque to index.ts.\<close>

datatype JWE = JWE string

datatype Encrypter = Encrypter string

record CreateJWEResult =
  jwe :: JWE

subsection \<open>The object, the collaborators, the observable state\<close>

record DID =
  priv_client :: "RPCClient option"
  priv_id :: "string option"
  priv_resolver :: Resolver

text \<open>The calls the object makes to its collaborators, in order.\<close>

datatype rpc_request =
    Did_authenticate AuthenticateParams
  | Did_createJWS CreateJWSParams
  | Did_createJWE CreateJWEParams

datatype call =
    Request DIDProvider rpc_request
  | Resolve "string option"
  | ResolveX25519Encrypters "string list"
  | LocalCreateJWE Uint8Array "Encrypter list" "JSONObject option" "Uint8Array option"

text \<open>
  The state a caller can observe: the object itself (\<open>self\<close>), the calls made so far, and
  the options objects the caller owns and passes by reference to \<open>createJWS\<close> and
  \<open>createDagJWS\<close> (\<open>objects\<close>, a store from references to objects).
\<close>

record world =
  self :: DID
  calls :: "call list"
  objects :: "nat \<Rightarrow> CreateJWSOptions"

text \<open>
  What the collaborators answer during one call:
  \<^item> \<open>randomString\<close>, \<open>fromDagJWS\<close>, \<open>base64urlToJSON\<close>, \<open>encodeBase64\<close>,
    \<open>encodeBase64Url\<close>: the helpers of \<open>./utils\<close> (\<open>randomString\<close> is the string the
    call of \<open>randomString()\<close> returns; \<open>base64urlToJSON\<close> also receives
    \<open>undefined\<close> when a compact JWS has no second segment);
  \<^item> \<open>now\<close>: the number \<open>Date.now() / 1000\<close> evaluates to;
  \<^item> \<open>request_authenticate\<close>, \<open>request_createJWS\<close>, \<open>request_createJWE\<close>:
    \<open>RPCClient.request\<close> for the methods 'did_authenticate', 'did_createJWS' and
    'did_createJWE', for the connection given;
  \<^item> \<open>jwt_verifyJWS\<close>, \<open>resolveX25519Encrypters\<close>, \<open>jwt_createJWE\<close>: did-jwt's
    \<open>verifyJWS\<close>, \<open>resolveX25519Encrypters\<close> and \<open>createJWE\<close>;
  \<^item> \<open>encodePayload\<close>: dag-jose-utils' \<open>encodePayload\<close>.
\<close>

record env =
  randomString :: string
  now :: rat
  fromDagJWS :: "DagJWS \<Rightarrow> error + string"
  base64urlToJSON :: "string option \<Rightarrow> error + JSONObject"
  encodeBase64 :: "Uint8Array \<Rightarrow> string"
  encodeBase64Url :: "Uint8Array \<Rightarrow> string"
  encodePayload :: "JSONObject \<Rightarrow> error + CID \<times> Uint8Array"
  request_authenticate :: "DIDProvider \<Rightarrow> AuthenticateParams \<Rightarrow> error + DagJWS"
  request_createJWS :: "DIDProvider \<Rightarrow> CreateJWSParams \<Rightarrow> error + CreateJWSResult"
  request_createJWE :: "DIDProvider \<Rightarrow> CreateJWEParams \<Rightarrow> error + CreateJWEResult"
  jwt_verifyJWS :: "string \<Rightarrow> PublicKey list \<Rightarrow> error + unit"
  resolveX25519Encrypters :: "string list \<Rightarrow> Resolver \<Rightarrow> error + Encrypter list"
  jwt_createJWE ::
    "Uint8Array \<Rightarrow> Encrypter list \<Rightarrow> JSONObject option \<Rightarrow> Uint8Array option \<Rightarrow> error + JWE"

subsection \<open>JavaScript's operations on strings, arrays and \<open>undefined\<close>\<close>

text \<open>\<open>!v\<close> for \<open>v\<close> a string or \<open>undefined\<close>: true for \<open>undefined\<close> and for ''.\<close>

definition falsy :: "string option \<Rightarrow> bool" where
  "falsy v = (case v of None \<Rightarrow> True | Some s \<Rightarrow> s = [])"

text \<open>\<open>xs[i]\<close>: \<open>undefined\<close> out of range.\<close>

fun nth_js :: "'a list \<Rightarrow> nat \<Rightarrow> 'a option" where
  "nth_js [] i = None"
| "nth_js (x # xs) 0 = Some x"
| "nth_js (x # xs) (Suc i) = nth_js xs i"

text \<open>\<open>s.split('.')\<close>: never empty; '' splits into [''].\<close>

fun split_dot :: "string \<Rightarrow> string list" where
  "split_dot [] = [[]]"
| "split_dot (c # cs) =
     (if c = CHR ''.'' then [] # split_dot cs
      else (case split_dot cs of [] \<Rightarrow> [[c]] | seg # segs \<Rightarrow> (c # seg) # segs))"

text \<open>\<open>ToString\<close> of a string or \<open>undefined\<close>, as \<open>String.prototype.includes\<close> applies it to its argument.\<close>

definition js_ToString :: "string option \<Rightarrow> string" where
  "js_ToString v = (case v of None \<Rightarrow> ''undefined'' | Some s \<Rightarrow> s)"

fun starts_with :: "string \<Rightarrow> string \<Rightarrow> bool" where
  "starts_with s [] = True"
| "starts_with [] (c # cs) = False"
| "starts_with (x # xs) (c # cs) = (x = c \<and> starts_with xs cs)"

text \<open>\<open>s.includes(t)\<close>: \<open>t\<close> occurs in \<open>s\<close> as a contiguous substring.\<close>

fun includes_str :: "string \<Rightarrow> string \<Rightarrow> bool" where
  "includes_str [] t = (t = [])"
| "includes_str (x # xs) t = (starts_with (x # xs) t \<or> includes_str xs t)"

text \<open>\<open>v < n\<close> for \<open>v\<close> a number or \<open>undefined\<close>: \<open>undefined\<close> converts to NaN, and every comparison with NaN is false.\<close>

definition js_less :: "rat option \<Rightarrow> rat \<Rightarrow> bool" where
  "js_less v n = (case v of None \<Rightarrow> False | Some x \<Rightarrow> x < n)"

subsection \<open>Lifecycle and provider binding\<close>

definition authenticated :: "DID \<Rightarrow> bool" where
  "authenticated this = (priv_id this \<noteq> None)"

definition DID_id :: "DID \<Rightarrow> error + string" where
  "DID_id this = (case priv_id this of None \<Rightarrow> Inl NotAuthenticated | Some i \<Rightarrow> Inr i)"

definition setProvider :: "DIDProvider \<Rightarrow> DID \<Rightarrow> (error + unit) \<times> DID" where
  "setProvider provider this =
     (case priv_client this of
        None \<Rightarrow> (Inr (), this\<lparr>priv_client := Some \<lparr>connection = provider\<rparr>\<rparr>)
      | Some client \<Rightarrow>
          if connection client \<noteq> provider then (Inl ProviderConflict, this)
          else (Inr (), this))"

definition clearProvider :: "DID \<Rightarrow> DID" where
  "clearProvider this =
     (if priv_client this \<noteq> None then this\<lparr>priv_client := None\<rparr> else this)"

definition deauthenticate :: "DID \<Rightarrow> DID" where
  "deauthenticate this = (clearProvider this)\<lparr>priv_id := None\<rparr>"

subsection \<open>Resolution and verification\<close>

text \<open>\<open>this._resolver.resolve(didUrl)\<close>, recorded among the calls.\<close>

definition resolve :: "world \<Rightarrow> string option \<Rightarrow> (error + DIDDocument) \<times> world" where
  "resolve w didUrl =
     (priv_resolver (self w) didUrl, w\<lparr>calls := calls w @ [Resolve didUrl]\<rparr>)"

definition verifyJWS :: "env \<Rightarrow> world \<Rightarrow> JWSInput \<Rightarrow> (error + VerifyJWSResult) \<times> world" where
  "verifyJWS e w input =
     (case (case input of Compact s \<Rightarrow> Inr s | Dag d \<Rightarrow> fromDagJWS e d) of
        Inl err \<Rightarrow> (Inl err, w)
      | Inr s \<Rightarrow>
         (case base64urlToJSON e (nth_js (split_dot s) 0) of
            Inl err \<Rightarrow> (Inl err, w)
          | Inr header \<Rightarrow>
             (case kid header of
                None \<Rightarrow> (Inl MissingKid, w)
              | Some k \<Rightarrow>
                 if k = [] then (Inl MissingKid, w)
                 else
                  (case resolve w (Some k) of
                     (Inl err, w1) \<Rightarrow> (Inl err, w1)
                   | (Inr doc, w1) \<Rightarrow>
                      (case jwt_verifyJWS e s (publicKey doc) of
                         Inl err \<Rightarrow> (Inl err, w1)
                       | Inr u \<Rightarrow>
                          (Inr \<lparr>verified_kid = k,
                                verified_payload =
                                  (case base64urlToJSON e (nth_js (split_dot s) 1) of
                                     Inl err \<Rightarrow> None
                                   | Inr p \<Rightarrow> Some p)\<rparr>,
                           w1))))))"

subsection \<open>Authentication\<close>

definition authenticate ::
  "env \<Rightarrow> world \<Rightarrow> AuthenticateOptions \<Rightarrow> (error + string option) \<times> world" where
  "authenticate e w opts =
     (case (case auth_provider opts of
              None \<Rightarrow> (Inr (), self w)
            | Some provider \<Rightarrow> setProvider provider (self w)) of
        (Inl err, this1) \<Rightarrow> (Inl err, w\<lparr>self := this1\<rparr>)
      | (Inr u, this1) \<Rightarrow>
         (case priv_client this1 of
            None \<Rightarrow> (Inl NoProvider, w\<lparr>self := this1\<rparr>)
          | Some client \<Rightarrow>
             (let nonce0 = randomString e;
                  params = \<lparr>params_nonce = nonce0, params_aud = auth_aud opts,
                            params_paths = auth_paths opts\<rparr>;
                  w1 = w\<lparr>self := this1,
                         calls := calls w @ [Request (connection client) (Did_authenticate params)]\<rparr>
              in
               (case request_authenticate e (connection client) params of
                  Inl err \<Rightarrow> (Inl err, w1)
                | Inr response \<Rightarrow>
                   (case verifyJWS e w1 (Dag response) of
                      (Inl err, w2) \<Rightarrow> (Inl err, w2)
                    | (Inr verified, w2) \<Rightarrow>
                       (case base64urlToJSON e (Some (payload response)) of
                          Inl err \<Rightarrow> (Inl err, w2)
                        | Inr p \<Rightarrow>
                           if \<not> includes_str (verified_kid verified) (js_ToString (did p))
                           then (Inl (InvalidAuthenticationResponse ''kid mismatch''), w2)
                           else if nonce p \<noteq> Some nonce0
                           then (Inl (InvalidAuthenticationResponse ''wrong nonce''), w2)
                           else if aud p \<noteq> auth_aud opts
                           then (Inl (InvalidAuthenticationResponse ''wrong aud''), w2)
                           else if js_less (exp_num p) (now e)
                           then (Inl (InvalidAuthenticationResponse ''expired''), w2)
                           else (Inr (did p),
                                 w2\<lparr>self := (self w2)\<lparr>priv_id := did p\<rparr>\<rparr>)))))))"

subsection \<open>Signing\<close>

text \<open>
  \<open>options\<close> is a reference into \<open>objects\<close>: the assignment \<open>options.did = this._id\<close>
  changes the caller's object, and the request carries a copy (\<open>{...options, payload}\<close>).
  A call that leaves \<open>options\<close> out is a call with a reference to a new empty object.
\<close>

definition createJWS :: "env \<Rightarrow> world \<Rightarrow> string \<Rightarrow> nat \<Rightarrow> (error + DagJWS) \<times> world" where
  "createJWS e w payload0 options =
     (case priv_client (self w) of
        None \<Rightarrow> (Inl NoProvider, w)
      | Some client \<Rightarrow>
         (case priv_id (self w) of
            None \<Rightarrow> (Inl NotAuthenticated, w)
          | Some i \<Rightarrow>
             (let w1 = (if falsy (opt_did (objects w options))
                        then w\<lparr>objects := (objects w)
                                 (options := (objects w options)\<lparr>opt_did := Some i\<rparr>)\<rparr>
                        else w);
                  ob = objects w1 options;
                  params = \<lparr>jws_did = opt_did ob, jws_protected = opt_protected ob,
                            jws_linkedBlock = opt_linkedBlock ob, jws_payload = payload0\<rparr>;
                  w2 = w1\<lparr>calls := calls w1 @ [Request (connection client) (Did_createJWS params)]\<rparr>
              in
               (case request_createJWS e (connection client) params of
                  Inl err \<Rightarrow> (Inl err, w2)
                | Inr res \<Rightarrow> (Inr (jws res), w2)))))"

definition createDagJWS ::
  "env \<Rightarrow> world \<Rightarrow> JSONObject \<Rightarrow> nat \<Rightarrow> (error + DagJWSResult) \<times> world" where
  "createDagJWS e w payload0 options =
     (case encodePayload e payload0 of
        Inl err \<Rightarrow> (Inl err, w)
      | Inr (cid, linkedBlock) \<Rightarrow>
         (let payloadCid = encodeBase64Url e (bytes cid);
              w1 = w\<lparr>objects := (objects w)
                     (options := (objects w options)
                        \<lparr>opt_linkedBlock := Some (encodeBase64 e linkedBlock)\<rparr>)\<rparr>
          in
           (case createJWS e w1 payloadCid options of
              (Inl err, w2) \<Rightarrow> (Inl err, w2)
            | (Inr signed, w2) \<Rightarrow>
               (Inr \<lparr>dag_jws = signed\<lparr>link := Some cid\<rparr>, dag_linkedBlock = linkedBlock\<rparr>,
                w2))))"

subsection \<open>Encryption\<close>

definition createJWE ::
  "env \<Rightarrow> world \<Rightarrow> Uint8Array \<Rightarrow> string list \<Rightarrow> CreateJWEOptions \<Rightarrow> (error + JWE) \<times> world" where
  "createJWE e w cleartext recipients options =
     (case priv_client (self w) of
        None \<Rightarrow> (Inl NoProvider, w)
      | Some client \<Rightarrow>
         (case resolve w (nth_js recipients 0) of
            (Inl err, w1) \<Rightarrow> (Inl err, w1)
          | (Inr didDoc, w1) \<Rightarrow>
             (case nth_js (publicKey didDoc) 0 of
                None \<Rightarrow> (Inl TypeError, w1)
              | Some key0 \<Rightarrow>
                 (let recepients =
                        (case publicKeyHex key0 of
                           None \<Rightarrow> []
                         | Some h \<Rightarrow> if h = [] then [] else [h]);
                      params = \<lparr>jwe_protectedHeader = protectedHeader options,
                                jwe_aad = aad options, jwe_cleartext = cleartext,
                                jwe_recipients = recepients\<rparr>;
                      w2 = w1\<lparr>calls := calls w1 @ [Request (connection client) (Did_createJWE params)]\<rparr>
                  in
                   (case request_createJWE e (connection client) params of
                      Inr res \<Rightarrow> (Inr (jwe res), w2)
                    | Inl err \<Rightarrow>
                       (let w3 = w2\<lparr>calls := calls w2 @ [ResolveX25519Encrypters recipients]\<rparr>
                        in
                         (case resolveX25519Encrypters e recipients (priv_resolver (self w)) of
                            Inl err2 \<Rightarrow> (Inl err2, w3)
                          | Inr encrypters \<Rightarrow>
                             (jwt_createJWE e cleartext encrypters (protectedHeader options)
                                (aad options),
                              w3\<lparr>calls := calls w3 @
                                   [LocalCreateJWE cleartext encrypters (protectedHeader options)
                                      (aad options)]\<rparr>))))))))"

section \<open>A concrete scenario\<close>

text \<open>
  One provider (connection 1) and one resolver. The provider answers every authentication
  request with the same signed response, whose header names the key
  \<open>did:ex:alice#k1\<close> and whose payload claims \<open>did:ex:alice\<close>, the nonce
  \<open>n0nce\<close>, the audience \<open>app\<close> and the expiry 2000. The resolver knows Alice (one
  key with a \<open>publicKeyHex\<close>), Carol (one key without) and Bob (no \<open>publicKey\<close>
  entries at all). \<open>fromDagJWS\<close> joins the only signature's protected header, the
  payload and the signature with dots; \<open>base64urlToJSON\<close> decodes the segments
  \<open>HEADER\<close>, \<open>PAYLOAD\<close> and \<open>NOKID\<close> (a header without \<open>kid\<close>) and throws on
  every other segment.
\<close>

definition alice_key :: PublicKey where
  "alice_key = \<lparr>publicKeyHex = Some ''04ab''\<rparr>"

definition ex_resolver :: Resolver where
  "ex_resolver = (\<lambda>didUrl.
     if didUrl = Some ''did:ex:alice#k1'' then Inr \<lparr>publicKey = [alice_key]\<rparr>
     else if didUrl = Some ''did:ex:alice'' then Inr \<lparr>publicKey = [alice_key]\<rparr>
     else if didUrl = Some ''did:ex:carol'' then Inr \<lparr>publicKey = [\<lparr>publicKeyHex = None\<rparr>]\<rparr>
     else if didUrl = Some ''did:ex:bob'' then Inr \<lparr>publicKey = []\<rparr>
     else Inl (Thrown ''unresolved''))"

definition ex_header :: JSONObject where
  "ex_header = \<lparr>kid = Some ''did:ex:alice#k1'', did = None, nonce = None, aud = None, exp_num = None\<rparr>"

definition ex_payload :: JSONObject where
  "ex_payload = \<lparr>kid = None, did = Some ''did:ex:alice'', nonce = Some ''n0nce'',
     aud = Some ''app'', exp_num = Some 2000\<rparr>"

definition ex_response :: DagJWS where
  "ex_response = \<lparr>payload = ''PAYLOAD'', signatures = [(''HEADER'', ''SIG'')], link = None\<rparr>"

definition ex_env :: env where
  "ex_env = \<lparr>
     randomString = ''n0nce'',
     now = 1000,
     fromDagJWS = (\<lambda>d. case signatures d of
        [(prot, sig)] \<Rightarrow> Inr (prot @ ''.'' @ payload d @ ''.'' @ sig)
      | _ \<Rightarrow> Inl (Thrown ''Cant convert to compact jws'')),
     base64urlToJSON = (\<lambda>seg.
        if seg = Some ''HEADER'' then Inr ex_header
        else if seg = Some ''PAYLOAD'' then Inr ex_payload
        else if seg = Some ''NOKID'' then Inr (ex_header\<lparr>kid := None\<rparr>)
        else Inl (Thrown ''Unexpected token'')),
     encodeBase64 = (\<lambda>b. if b = [9, 9] then ''CQk='' else ''AA==''),
     encodeBase64Url = (\<lambda>b. ''AQID''),
     encodePayload = (\<lambda>p. Inr (CID [1, 2, 3], [9, 9])),
     request_authenticate = (\<lambda>c params. if c = 1 then Inr ex_response else Inl (Thrown ''closed'')),
     request_createJWS = (\<lambda>c params.
        if c = 1
        then Inr \<lparr>jws = \<lparr>payload = jws_payload params, signatures = [(''HEADER'', ''SIG'')],
                          link = None\<rparr>\<rparr>
        else Inl (Thrown ''closed'')),
     request_createJWE = (\<lambda>c params.
        if jwe_recipients params = [] then Inl (Thrown ''no recipients'')
        else Inr \<lparr>jwe = JWE ''by provider''\<rparr>),
     jwt_verifyJWS = (\<lambda>s keys.
        if (s = ''HEADER.PAYLOAD.SIG'' \<or> s = ''HEADER.bafyCID.SIG'') \<and> keys = [alice_key]
        then Inr () else Inl (Thrown ''Signature invalid'')),
     resolveX25519Encrypters = (\<lambda>dids r. Inr (map Encrypter dids)),
     jwt_createJWE = (\<lambda>clear encrypters prot a. Inr (JWE ''local''))\<rparr>"

definition ex_did :: DID where
  "ex_did = \<lparr>priv_client = None, priv_id = None, priv_resolver = ex_resolver\<rparr>"

definition ex_world :: world where
  "ex_world = \<lparr>self = ex_did, calls = [],
     objects = (\<lambda>r. \<lparr>opt_did = None, opt_protected = None, opt_linkedBlock = None\<rparr>)\<rparr>"

definition ex_opts :: AuthenticateOptions where
  "ex_opts = \<lparr>auth_provider = Some 1, auth_aud = Some ''app'', auth_paths = None\<rparr>"

text \<open>
  Variants: a run whose generated nonce differs from the response's, a clock after the
  expiry, a clock exactly at the expiry; the object with the provider bound, and with an
  identifier established as well.
\<close>

definition ex_env_wrong_nonce :: env where
  "ex_env_wrong_nonce = ex_env\<lparr>randomString := ''fresh''\<rparr>"

definition ex_env_expired :: env where
  "ex_env_expired = ex_env\<lparr>now := 2001\<rparr>"

definition ex_env_at_expiry :: env where
  "ex_env_at_expiry = ex_env\<lparr>now := 2000\<rparr>"

definition ex_bound :: world where
  "ex_bound = ex_world\<lparr>self := ex_did\<lparr>priv_client := Some \<lparr>connection = 1\<rparr>\<rparr>\<rparr>"

definition ex_authenticated :: DID where
  "ex_authenticated = ex_did\<lparr>priv_client := Some \<lparr>connection = 1\<rparr>, priv_id := Some ''did:ex:alice''\<rparr>"

definition ex_signed_in :: world where
  "ex_signed_in = ex_world\<lparr>self := ex_authenticated\<rparr>"

lemmas ex_defs = alice_key_def ex_resolver_def ex_header_def ex_payload_def ex_response_def
  ex_env_def ex_did_def ex_world_def ex_opts_def ex_env_wrong_nonce_def ex_env_expired_def
  ex_env_at_expiry_def ex_bound_def ex_authenticated_def ex_signed_in_def

section \<open>The string operations meet their descriptions\<close>

text \<open>
  \<open>includes_str s t\<close> holds exactly when \<open>t\<close> is a contiguous part of \<open>s\<close>;
  \<open>split_dot\<close> always returns a first segment, and no segment contains a dot.
\<close>

lemma starts_with_iff: "starts_with s t \<longleftrightarrow> (\<exists>suf. s = t @ suf)"
  by (induction s t rule: starts_with.induct) auto

lemma includes_str_iff: "includes_str s t \<longleftrightarrow> (\<exists>pre suf. s = pre @ t @ suf)"
proof (induction s)
  case Nil
  then show ?case by simp
next
  case (Cons x xs)
  show ?case
  proof
    assume "includes_str (x # xs) t"
    then consider "starts_with (x # xs) t" | "includes_str xs t" by auto
    then show "\<exists>pre suf. x # xs = pre @ t @ suf"
    proof cases
      case 1
      then obtain suf where "x # xs = t @ suf" by (auto simp: starts_with_iff)
      then have "x # xs = [] @ t @ suf" by simp
      then show ?thesis by blast
    next
      case 2
      then obtain pre suf where "xs = pre @ t @ suf" using Cons.IH by blast
      then have "x # xs = (x # pre) @ t @ suf" by simp
      then show ?thesis by blast
    qed
  next
    assume "\<exists>pre suf. x # xs = pre @ t @ suf"
    then obtain pre suf where eq: "x # xs = pre @ t @ suf" by blast
    show "includes_str (x # xs) t"
    proof (cases pre)
      case Nil
      then have "starts_with (x # xs) t" using eq by (auto simp: starts_with_iff)
      then show ?thesis by simp
    next
      case (Cons y ys)
      then have "xs = ys @ t @ suf" using eq by simp
      then have "includes_str xs t" using Cons.IH by blast
      then show ?thesis by simp
    qed
  qed
qed

lemma split_dot_nonempty: "split_dot s \<noteq> []"
  by (induction s) (auto split: list.splits)

lemma split_dot_no_dots: "seg \<in> set (split_dot s) \<Longrightarrow> CHR ''.'' \<notin> set seg"
  by (induction s arbitrary: seg) (auto split: list.splits if_splits)

section \<open>Frame lemmas\<close>

text \<open>\<open>setProvider\<close> never touches the identifier; \<open>verifyJWS\<close> changes nothing but the list of calls.\<close>

lemma setProvider_priv_id: "setProvider c this = (r, this1) \<Longrightarrow> priv_id this1 = priv_id this"
  by (auto simp: setProvider_def split: option.splits if_splits)

lemma verifyJWS_self: "verifyJWS e w input = (r, w') \<Longrightarrow> self w' = self w"
  by (auto simp: verifyJWS_def resolve_def split: sum.splits option.splits prod.splits JWSInput.splits if_splits)

lemma verifyJWS_objects: "verifyJWS e w input = (r, w') \<Longrightarrow> objects w' = objects w"
  by (auto simp: verifyJWS_def resolve_def split: sum.splits option.splits prod.splits JWSInput.splits if_splits)

text \<open>
  What \<open>createJWS\<close> does to the options objects: at most the assignment
  \<open>options.did = this._id\<close>, and only once both guards have passed.
\<close>

lemma createJWS_objects:
  "objects (snd (createJWS e w pl options)) r =
     (if r = options \<and> priv_client (self w) \<noteq> None \<and> priv_id (self w) \<noteq> None
         \<and> falsy (opt_did (objects w options))
      then (objects w options)\<lparr>opt_did := priv_id (self w)\<rparr>
      else objects w r)"
  by (auto simp: createJWS_def Let_def split: option.splits sum.splits)

text \<open>
  Once \<open>authenticate\<close> has a client, an answer from the provider, a verified envelope and a
  decoded payload, its result is decided by the four checks, in the order of the source.
\<close>

lemma authenticate_validation:
  assumes "(case auth_provider opts of None \<Rightarrow> (Inr (), self w)
            | Some provider \<Rightarrow> setProvider provider (self w)) = (Inr (), this1)"
    and "priv_client this1 = Some client"
    and "request_authenticate e (connection client)
           \<lparr>params_nonce = randomString e, params_aud = auth_aud opts,
            params_paths = auth_paths opts\<rparr> = Inr response"
    and "verifyJWS e
           (w\<lparr>self := this1,
              calls := calls w @
                [Request (connection client)
                   (Did_authenticate
                      \<lparr>params_nonce = randomString e, params_aud = auth_aud opts,
                       params_paths = auth_paths opts\<rparr>)]\<rparr>)
           (Dag response) = (Inr verified, w2)"
    and "base64urlToJSON e (Some (payload response)) = Inr p"
  shows "authenticate e w opts =
     (if \<not> includes_str (verified_kid verified) (js_ToString (did p))
      then (Inl (InvalidAuthenticationResponse ''kid mismatch''), w2)
      else if nonce p \<noteq> Some (randomString e)
      then (Inl (InvalidAuthenticationResponse ''wrong nonce''), w2)
      else if aud p \<noteq> auth_aud opts
      then (Inl (InvalidAuthenticationResponse ''wrong aud''), w2)
      else if js_less (exp_num p) (now e)
      then (Inl (InvalidAuthenticationResponse ''expired''), w2)
      else (Inr (did p), w2\<lparr>self := (self w2)\<lparr>priv_id := did p\<rparr>\<rparr>))"
  using assms by (simp add: authenticate_def Let_def)

text \<open>
  Whatever makes \<open>authenticate\<close> fail, the identifier, the resolver and the caller's
  objects are as before the call; only the provider binding of the first step and the
  recorded calls may differ.
\<close>

lemma authenticate_failure_frame:
  assumes "authenticate e w opts = (Inl err, w')"
  shows "priv_id (self w') = priv_id (self w)
       \<and> priv_resolver (self w') = priv_resolver (self w)
       \<and> objects w' = objects w"
proof -
  have unchanged: "self w2 = self w1 \<and> objects w2 = objects w1"
    if "verifyJWS e w1 input = (r, w2)" for w1 r w2 input
    using that verifyJWS_self verifyJWS_objects by blast
  show ?thesis
    using assms
    by (auto simp: authenticate_def Let_def setProvider_def
        split: option.splits sum.splits prod.splits if_splits dest!: unchanged)
qed

text \<open>The scenario reaches validation: the facts the examples below share.\<close>

lemma ex_bound_step:
  "(case auth_provider ex_opts of None \<Rightarrow> (Inr (), self ex_world)
    | Some provider \<Rightarrow> setProvider provider (self ex_world)) = (Inr (), self ex_bound)"
  "priv_client (self ex_bound) = Some \<lparr>connection = 1\<rparr>"
  "priv_id (self ex_world) = None"
  by (simp_all add: ex_opts_def ex_world_def ex_did_def ex_bound_def setProvider_def)

lemma ex_verified:
  assumes "fromDagJWS e = fromDagJWS ex_env" "base64urlToJSON e = base64urlToJSON ex_env"
    "jwt_verifyJWS e = jwt_verifyJWS ex_env"
  shows "verifyJWS e (ex_world\<lparr>self := self ex_bound, calls := calls ex_world @ [c]\<rparr>) (Dag ex_response)
     = (Inr \<lparr>verified_kid = ''did:ex:alice#k1'', verified_payload = Some ex_payload\<rparr>,
        ex_world\<lparr>self := self ex_bound, calls := [c, Resolve (Some ''did:ex:alice#k1'')]\<rparr>)"
  by (simp add: verifyJWS_def resolve_def assms ex_env_def ex_response_def ex_header_def
      ex_world_def ex_bound_def ex_did_def ex_resolver_def)

section \<open>Authentication\<close>

text \<open>
  C1. Take an unauthenticated object and a call of \<open>authenticate\<close> that reaches
  validation: after the optional \<open>setProvider\<close> a client is bound, the provider answers
  the request with \<open>response\<close>, \<open>verifyJWS\<close> accepts it and its payload decodes to
  \<open>p\<close>. If one of the four checks fails (the verified \<open>kid\<close> does not contain the
  claimed identifier, the nonce differs from the generated one, the audience differs from the
  requested one, or the expiry is less than the current time), then \<open>authenticate\<close> fails
  with \<open>InvalidAuthenticationResponse\<close>, the identifier is still unset and
  \<open>authenticated\<close> is still false. The object is left as the provider binding of the first
  step left it (\<open>this1\<close>): validation itself stores nothing.
\<close>

theorem authenticate_rejects_invalid_response:
  assumes unauthenticated: "priv_id (self w) = None"
    and bound: "(case auth_provider opts of None \<Rightarrow> (Inr (), self w)
            | Some provider \<Rightarrow> setProvider provider (self w)) = (Inr (), this1)"
      "priv_client this1 = Some client"
    and answered: "request_authenticate e (connection client)
           \<lparr>params_nonce = randomString e, params_aud = auth_aud opts,
            params_paths = auth_paths opts\<rparr> = Inr response"
    and verified: "verifyJWS e
           (w\<lparr>self := this1,
              calls := calls w @
                [Request (connection client)
                   (Did_authenticate
                      \<lparr>params_nonce = randomString e, params_aud = auth_aud opts,
                       params_paths = auth_paths opts\<rparr>)]\<rparr>)
           (Dag response) = (Inr verified, w2)"
    and decoded: "base64urlToJSON e (Some (payload response)) = Inr p"
    and invalid: "\<not> includes_str (verified_kid verified) (js_ToString (did p))
       \<or> nonce p \<noteq> Some (randomString e)
       \<or> aud p \<noteq> auth_aud opts
       \<or> js_less (exp_num p) (now e)"
  shows "(\<exists>reason. fst (authenticate e w opts) = Inl (InvalidAuthenticationResponse reason))
       \<and> priv_id (self (snd (authenticate e w opts))) = None
       \<and> \<not> authenticated (self (snd (authenticate e w opts)))
       \<and> self (snd (authenticate e w opts)) = this1"
proof -
  have id1: "priv_id this1 = None"
    using bound(1) unauthenticated
    by (auto split: option.splits dest: setProvider_priv_id)
  have self2: "self w2 = this1"
    using verifyJWS_self [OF verified] by simp
  have run: "authenticate e w opts =
     (if \<not> includes_str (verified_kid verified) (js_ToString (did p))
      then (Inl (InvalidAuthenticationResponse ''kid mismatch''), w2)
      else if nonce p \<noteq> Some (randomString e)
      then (Inl (InvalidAuthenticationResponse ''wrong nonce''), w2)
      else if aud p \<noteq> auth_aud opts
      then (Inl (InvalidAuthenticationResponse ''wrong aud''), w2)
      else (Inl (InvalidAuthenticationResponse ''expired''), w2))"
    using authenticate_validation [OF bound answered verified decoded] invalid by auto
  have state: "snd (authenticate e w opts) = w2"
    by (simp add: run)
  have failed: "\<exists>reason. fst (authenticate e w opts) = Inl (InvalidAuthenticationResponse reason)"
    by (simp add: run)
  show ?thesis
    using failed by (simp add: state self2 id1 authenticated_def)
qed

text \<open>C1 in the scenario: once with a wrong nonce, once with a clock after the expiry.\<close>

theorem authenticate_rejects_invalid_response_witness:
  "nonce ex_payload \<noteq> Some (randomString ex_env_wrong_nonce)
   \<and> fst (authenticate ex_env_wrong_nonce ex_world ex_opts)
        = Inl (InvalidAuthenticationResponse ''wrong nonce'')
   \<and> priv_id (self (snd (authenticate ex_env_wrong_nonce ex_world ex_opts))) = None
   \<and> \<not> authenticated (self (snd (authenticate ex_env_wrong_nonce ex_world ex_opts)))
   \<and> js_less (exp_num ex_payload) (now ex_env_expired)
   \<and> fst (authenticate ex_env_expired ex_world ex_opts)
        = Inl (InvalidAuthenticationResponse ''expired'')
   \<and> \<not> authenticated (self (snd (authenticate ex_env_expired ex_world ex_opts)))"
proof -
  have answered1: "request_authenticate ex_env_wrong_nonce (connection \<lparr>connection = 1\<rparr>)
           \<lparr>params_nonce = randomString ex_env_wrong_nonce, params_aud = auth_aud ex_opts,
            params_paths = auth_paths ex_opts\<rparr> = Inr ex_response"
    and answered2: "request_authenticate ex_env_expired (connection \<lparr>connection = 1\<rparr>)
           \<lparr>params_nonce = randomString ex_env_expired, params_aud = auth_aud ex_opts,
            params_paths = auth_paths ex_opts\<rparr> = Inr ex_response"
    by (simp_all add: ex_env_wrong_nonce_def ex_env_expired_def ex_env_def)
  have decoded1: "base64urlToJSON ex_env_wrong_nonce (Some (payload ex_response)) = Inr ex_payload"
    and decoded2: "base64urlToJSON ex_env_expired (Some (payload ex_response)) = Inr ex_payload"
    by (simp_all add: ex_env_wrong_nonce_def ex_env_expired_def ex_env_def ex_response_def)
  have wrong_nonce: "nonce ex_payload \<noteq> Some (randomString ex_env_wrong_nonce)"
    by (simp add: ex_payload_def ex_env_wrong_nonce_def ex_env_def)
  have expired: "js_less (exp_num ex_payload) (now ex_env_expired)"
    by (simp add: js_less_def ex_payload_def ex_env_expired_def ex_env_def)
  have verified1: "verifyJWS ex_env_wrong_nonce
       (ex_world\<lparr>self := self ex_bound, calls := calls ex_world @ [c]\<rparr>) (Dag ex_response)
     = (Inr \<lparr>verified_kid = ''did:ex:alice#k1'', verified_payload = Some ex_payload\<rparr>,
        ex_world\<lparr>self := self ex_bound, calls := [c, Resolve (Some ''did:ex:alice#k1'')]\<rparr>)" for c
    by (rule ex_verified) (simp_all add: ex_env_wrong_nonce_def)
  have verified2: "verifyJWS ex_env_expired
       (ex_world\<lparr>self := self ex_bound, calls := calls ex_world @ [c]\<rparr>) (Dag ex_response)
     = (Inr \<lparr>verified_kid = ''did:ex:alice#k1'', verified_payload = Some ex_payload\<rparr>,
        ex_world\<lparr>self := self ex_bound, calls := [c, Resolve (Some ''did:ex:alice#k1'')]\<rparr>)" for c
    by (rule ex_verified) (simp_all add: ex_env_expired_def)
  have reasons:
    "fst (authenticate ex_env_wrong_nonce ex_world ex_opts)
       = Inl (InvalidAuthenticationResponse ''wrong nonce'')"
    "fst (authenticate ex_env_expired ex_world ex_opts)
       = Inl (InvalidAuthenticationResponse ''expired'')"
    by (simp_all add: ex_defs authenticate_def verifyJWS_def resolve_def setProvider_def
        Let_def js_ToString_def js_less_def)
  show ?thesis
    using authenticate_rejects_invalid_response
        [OF ex_bound_step(3) ex_bound_step(1) ex_bound_step(2) answered1 verified1 decoded1]
      authenticate_rejects_invalid_response
        [OF ex_bound_step(3) ex_bound_step(1) ex_bound_step(2) answered2 verified2 decoded2]
      wrong_nonce expired reasons
    by blast
qed

text \<open>
  C2. For a call of \<open>authenticate\<close> that reaches validation with a response whose
  payload claims the identifier \<open>d\<close>, whose verified \<open>kid\<close> contains \<open>d\<close>, whose
  nonce is the generated one, whose audience equals the requested one (both may be absent)
  and whose expiry is greater than the current time: \<open>authenticate\<close> returns \<open>d\<close>
  and stores it, so that afterwards \<open>authenticated\<close> holds and \<open>id\<close> returns \<open>d\<close>.
\<close>

theorem authenticate_accepts_valid_response:
  assumes bound: "(case auth_provider opts of None \<Rightarrow> (Inr (), self w)
            | Some provider \<Rightarrow> setProvider provider (self w)) = (Inr (), this1)"
      "priv_client this1 = Some client"
    and answered: "request_authenticate e (connection client)
           \<lparr>params_nonce = randomString e, params_aud = auth_aud opts,
            params_paths = auth_paths opts\<rparr> = Inr response"
    and verified: "verifyJWS e
           (w\<lparr>self := this1,
              calls := calls w @
                [Request (connection client)
                   (Did_authenticate
                      \<lparr>params_nonce = randomString e, params_aud = auth_aud opts,
                       params_paths = auth_paths opts\<rparr>)]\<rparr>)
           (Dag response) = (Inr verified, w2)"
    and decoded: "base64urlToJSON e (Some (payload response)) = Inr p"
    and claimed: "did p = Some d"
    and kid_ok: "includes_str (verified_kid verified) d"
    and nonce_ok: "nonce p = Some (randomString e)"
    and aud_ok: "aud p = auth_aud opts"
    and exp_ok: "exp_num p = Some x" "now e < x"
  shows "fst (authenticate e w opts) = Inr (Some d)
       \<and> priv_id (self (snd (authenticate e w opts))) = Some d
       \<and> authenticated (self (snd (authenticate e w opts)))
       \<and> DID_id (self (snd (authenticate e w opts))) = Inr d"
proof -
  have run: "authenticate e w opts = (Inr (Some d), w2\<lparr>self := (self w2)\<lparr>priv_id := Some d\<rparr>\<rparr>)"
    using authenticate_validation [OF bound answered verified decoded]
      claimed kid_ok nonce_ok aud_ok exp_ok
    by (simp add: js_ToString_def js_less_def)
  show ?thesis
    by (simp add: run authenticated_def DID_id_def)
qed

text \<open>C2 in the scenario: the response is accepted at time 1000.\<close>

theorem authenticate_accepts_valid_response_witness:
  "includes_str ''did:ex:alice#k1'' ''did:ex:alice''
   \<and> nonce ex_payload = Some (randomString ex_env)
   \<and> aud ex_payload = auth_aud ex_opts
   \<and> exp_num ex_payload = Some 2000 \<and> now ex_env < 2000
   \<and> fst (authenticate ex_env ex_world ex_opts) = Inr (Some ''did:ex:alice'')
   \<and> authenticated (self (snd (authenticate ex_env ex_world ex_opts)))
   \<and> DID_id (self (snd (authenticate ex_env ex_world ex_opts))) = Inr ''did:ex:alice''"
proof -
  have answered: "request_authenticate ex_env (connection \<lparr>connection = 1\<rparr>)
           \<lparr>params_nonce = randomString ex_env, params_aud = auth_aud ex_opts,
            params_paths = auth_paths ex_opts\<rparr> = Inr ex_response"
    by (simp add: ex_env_def)
  have decoded: "base64urlToJSON ex_env (Some (payload ex_response)) = Inr ex_payload"
    by (simp add: ex_env_def ex_response_def)
  have verified: "verifyJWS ex_env
       (ex_world\<lparr>self := self ex_bound, calls := calls ex_world @ [c]\<rparr>) (Dag ex_response)
     = (Inr \<lparr>verified_kid = ''did:ex:alice#k1'', verified_payload = Some ex_payload\<rparr>,
        ex_world\<lparr>self := self ex_bound, calls := [c, Resolve (Some ''did:ex:alice#k1'')]\<rparr>)" for c
    by (rule ex_verified) simp_all
  have claimed: "did ex_payload = Some ''did:ex:alice''"
    by (simp add: ex_payload_def)
  have kid_ok: "includes_str
      (verified_kid \<lparr>verified_kid = ''did:ex:alice#k1'', verified_payload = Some ex_payload\<rparr>)
      ''did:ex:alice''"
    by simp
  have nonce_ok: "nonce ex_payload = Some (randomString ex_env)"
    by (simp add: ex_payload_def ex_env_def)
  have aud_ok: "aud ex_payload = auth_aud ex_opts"
    by (simp add: ex_payload_def ex_opts_def)
  have exp_ok: "exp_num ex_payload = Some 2000" "now ex_env < 2000"
    by (simp_all add: ex_payload_def ex_env_def)
  show ?thesis
    using authenticate_accepts_valid_response
        [OF ex_bound_step(1) ex_bound_step(2) answered verified decoded claimed kid_ok nonce_ok
          aud_ok exp_ok]
      kid_ok nonce_ok aud_ok exp_ok
    by simp
qed

text \<open>
  C3, as stated, fails: the source rejects when \<open>payload.exp < Date.now() / 1000\<close>, so a
  response whose expiry equals the current time passes the check. In the scenario with the
  clock at 2000, the expiry of the response, \<open>authenticate\<close> succeeds.
\<close>

theorem authenticate_accepts_expiry_equal_now:
  "base64urlToJSON ex_env_at_expiry (Some (payload ex_response)) = Inr ex_payload
   \<and> exp_num ex_payload = Some (now ex_env_at_expiry)
   \<and> fst (authenticate ex_env_at_expiry ex_world ex_opts) = Inr (Some ''did:ex:alice'')
   \<and> DID_id (self (snd (authenticate ex_env_at_expiry ex_world ex_opts))) = Inr ''did:ex:alice''"
  by (simp add: ex_env_at_expiry_def ex_defs authenticate_def verifyJWS_def resolve_def
      setProvider_def Let_def js_ToString_def js_less_def DID_id_def)

text \<open>
  C3, amended. For a call of \<open>authenticate\<close> that reaches validation with a response
  whose payload has the expiry \<open>x\<close>: if \<open>x\<close> is less than the current time the call
  fails with \<open>InvalidAuthenticationResponse\<close>, whatever the other checks say; and when the
  other three checks pass, the call fails with the reason 'expired' if \<open>x\<close> is less than
  the current time and succeeds if \<open>x\<close> is greater than or equal to it.
\<close>

theorem authenticate_expiry_check:
  assumes bound: "(case auth_provider opts of None \<Rightarrow> (Inr (), self w)
            | Some provider \<Rightarrow> setProvider provider (self w)) = (Inr (), this1)"
      "priv_client this1 = Some client"
    and answered: "request_authenticate e (connection client)
           \<lparr>params_nonce = randomString e, params_aud = auth_aud opts,
            params_paths = auth_paths opts\<rparr> = Inr response"
    and verified: "verifyJWS e
           (w\<lparr>self := this1,
              calls := calls w @
                [Request (connection client)
                   (Did_authenticate
                      \<lparr>params_nonce = randomString e, params_aud = auth_aud opts,
                       params_paths = auth_paths opts\<rparr>)]\<rparr>)
           (Dag response) = (Inr verified, w2)"
    and decoded: "base64urlToJSON e (Some (payload response)) = Inr p"
    and expiry: "exp_num p = Some x"
  shows "(x < now e \<longrightarrow>
            (\<exists>reason. fst (authenticate e w opts) = Inl (InvalidAuthenticationResponse reason)))
       \<and> (includes_str (verified_kid verified) (js_ToString (did p))
            \<and> nonce p = Some (randomString e) \<and> aud p = auth_aud opts \<longrightarrow>
              (x < now e \<longrightarrow>
                 fst (authenticate e w opts) = Inl (InvalidAuthenticationResponse ''expired''))
            \<and> (now e \<le> x \<longrightarrow> fst (authenticate e w opts) = Inr (did p)))"
  using authenticate_validation [OF bound answered verified decoded] expiry
  by (simp add: js_less_def)

text \<open>C3, amended, in the scenario: rejected at time 2001, accepted at time 1000.\<close>

theorem authenticate_expiry_check_witness:
  "exp_num ex_payload = Some 2000
   \<and> 2000 < now ex_env_expired
   \<and> fst (authenticate ex_env_expired ex_world ex_opts) = Inl (InvalidAuthenticationResponse ''expired'')
   \<and> now ex_env \<le> 2000
   \<and> fst (authenticate ex_env ex_world ex_opts) = Inr (Some ''did:ex:alice'')"
proof -
  have answered1: "request_authenticate ex_env (connection \<lparr>connection = 1\<rparr>)
           \<lparr>params_nonce = randomString ex_env, params_aud = auth_aud ex_opts,
            params_paths = auth_paths ex_opts\<rparr> = Inr ex_response"
    and answered2: "request_authenticate ex_env_expired (connection \<lparr>connection = 1\<rparr>)
           \<lparr>params_nonce = randomString ex_env_expired, params_aud = auth_aud ex_opts,
            params_paths = auth_paths ex_opts\<rparr> = Inr ex_response"
    by (simp_all add: ex_env_expired_def ex_env_def)
  have decoded1: "base64urlToJSON ex_env (Some (payload ex_response)) = Inr ex_payload"
    and decoded2: "base64urlToJSON ex_env_expired (Some (payload ex_response)) = Inr ex_payload"
    by (simp_all add: ex_env_expired_def ex_env_def ex_response_def)
  have verified1: "verifyJWS ex_env
       (ex_world\<lparr>self := self ex_bound, calls := calls ex_world @ [c]\<rparr>) (Dag ex_response)
     = (Inr \<lparr>verified_kid = ''did:ex:alice#k1'', verified_payload = Some ex_payload\<rparr>,
        ex_world\<lparr>self := self ex_bound, calls := [c, Resolve (Some ''did:ex:alice#k1'')]\<rparr>)" for c
    by (rule ex_verified) simp_all
  have verified2: "verifyJWS ex_env_expired
       (ex_world\<lparr>self := self ex_bound, calls := calls ex_world @ [c]\<rparr>) (Dag ex_response)
     = (Inr \<lparr>verified_kid = ''did:ex:alice#k1'', verified_payload = Some ex_payload\<rparr>,
        ex_world\<lparr>self := self ex_bound, calls := [c, Resolve (Some ''did:ex:alice#k1'')]\<rparr>)" for c
    by (rule ex_verified) (simp_all add: ex_env_expired_def)
  have expiry: "exp_num ex_payload = Some 2000"
    by (simp add: ex_payload_def)
  have times: "2000 < now ex_env_expired" "now ex_env \<le> 2000"
    by (simp_all add: ex_env_expired_def ex_env_def)
  have others1: "includes_str
      (verified_kid \<lparr>verified_kid = ''did:ex:alice#k1'', verified_payload = Some ex_payload\<rparr>)
      (js_ToString (did ex_payload))"
     "nonce ex_payload = Some (randomString ex_env)"
     "nonce ex_payload = Some (randomString ex_env_expired)"
     "aud ex_payload = auth_aud ex_opts"
     "did ex_payload = Some ''did:ex:alice''"
    by (simp_all add: ex_payload_def ex_env_expired_def ex_env_def ex_opts_def js_ToString_def)
  note at_or_before = authenticate_expiry_check
        [OF ex_bound_step(1) ex_bound_step(2) answered1 verified1 decoded1 expiry]
  note after = authenticate_expiry_check
        [OF ex_bound_step(1) ex_bound_step(2) answered2 verified2 decoded2 expiry]
  have rejected_expired: "fst (authenticate ex_env_expired ex_world ex_opts)
          = Inl (InvalidAuthenticationResponse ''expired'')"
    using after times(1) others1(1,3,4) by blast
  have accepted: "fst (authenticate ex_env ex_world ex_opts) = Inr (did ex_payload)"
    using at_or_before times(2) others1(1,2,4) by blast
  show ?thesis
    using expiry times rejected_expired accepted others1(5) by simp
qed

section \<open>Verification\<close>

text \<open>
  C4. If the header of the envelope (the first segment of its compact form) decodes to an
  object without \<open>kid\<close>, \<open>verifyJWS\<close> fails with \<open>MissingKid\<close> and leaves the state as
  it found it: no call to the resolver, or to any collaborator, has been recorded.
\<close>

theorem verifyJWS_missing_kid:
  assumes compact: "(case input of Compact c \<Rightarrow> Inr c | Dag d \<Rightarrow> fromDagJWS e d) = Inr s"
    and header: "base64urlToJSON e (nth_js (split_dot s) 0) = Inr header"
    and lacks: "kid header = None"
  shows "verifyJWS e w input = (Inl MissingKid, w)
       \<and> calls (snd (verifyJWS e w input)) = calls w"
  using assms by (simp add: verifyJWS_def)

text \<open>C4 in the scenario: the compact envelope \<open>NOKID.PAYLOAD.SIG\<close>.\<close>

theorem verifyJWS_missing_kid_witness:
  "base64urlToJSON ex_env (nth_js (split_dot ''NOKID.PAYLOAD.SIG'') 0) = Inr (ex_header\<lparr>kid := None\<rparr>)
   \<and> verifyJWS ex_env ex_world (Compact ''NOKID.PAYLOAD.SIG'') = (Inl MissingKid, ex_world)
   \<and> calls (snd (verifyJWS ex_env ex_world (Compact ''NOKID.PAYLOAD.SIG''))) = []"
proof -
  have compact: "(case Compact ''NOKID.PAYLOAD.SIG'' of Compact c \<Rightarrow> Inr c
                  | Dag d \<Rightarrow> fromDagJWS ex_env d) = Inr ''NOKID.PAYLOAD.SIG''"
    by simp
  have header: "base64urlToJSON ex_env (nth_js (split_dot ''NOKID.PAYLOAD.SIG'') 0)
                  = Inr (ex_header\<lparr>kid := None\<rparr>)"
    by (simp add: ex_env_def)
  have lacks: "kid (ex_header\<lparr>kid := None\<rparr>) = None"
    by simp
  have empty: "calls ex_world = []"
    by (simp add: ex_world_def)
  show ?thesis
    using verifyJWS_missing_kid [OF compact header lacks, of ex_world] header empty by simp
qed

text \<open>An empty \<open>kid\<close> is falsy as well, and is refused the same way.\<close>

lemma verifyJWS_empty_kid:
  assumes "(case input of Compact c \<Rightarrow> Inr c | Dag d \<Rightarrow> fromDagJWS e d) = Inr s"
    and "base64urlToJSON e (nth_js (split_dot s) 0) = Inr header"
    and "kid header = Some []"
  shows "verifyJWS e w input = (Inl MissingKid, w)"
  using assms by (simp add: verifyJWS_def)

section \<open>Encryption\<close>

text \<open>
  What the \<open>try\<close>/\<open>catch\<close> of \<open>createJWE\<close> does: when the first recipient resolves to a
  document with at least one \<open>publicKey\<close> entry and the provider's request fails, the
  result is the one of the local path, its failure included.
\<close>

lemma createJWE_falls_back:
  assumes "priv_client (self w) = Some client"
    and "priv_resolver (self w) (nth_js recipients 0) = Inr didDoc"
    and "nth_js (publicKey didDoc) 0 = Some key0"
    and "request_createJWE e (connection client)
           \<lparr>jwe_protectedHeader = protectedHeader options, jwe_aad = aad options,
            jwe_cleartext = cleartext,
            jwe_recipients = (case publicKeyHex key0 of None \<Rightarrow> []
                              | Some h \<Rightarrow> if h = [] then [] else [h])\<rparr> = Inl err"
  shows "fst (createJWE e w cleartext recipients options) =
           (case resolveX25519Encrypters e recipients (priv_resolver (self w)) of
              Inl err2 \<Rightarrow> Inl err2
            | Inr encrypters \<Rightarrow>
                jwt_createJWE e cleartext encrypters (protectedHeader options) (aad options))"
  using assms by (simp add: createJWE_def resolve_def Let_def split: sum.splits)

text \<open>
  In the scenario: Carol's only key has no \<open>publicKeyHex\<close>, the request goes out with an
  empty list of recipients, the provider rejects it, and the envelope is built locally.
\<close>

lemma createJWE_falls_back_example:
  "createJWE ex_env ex_bound [7] [''did:ex:carol''] \<lparr>protectedHeader = None, aad = None\<rparr>
     = (Inr (JWE ''local''),
        ex_bound\<lparr>calls :=
          [Resolve (Some ''did:ex:carol''),
           Request 1 (Did_createJWE \<lparr>jwe_protectedHeader = None, jwe_aad = None,
                                     jwe_cleartext = [7], jwe_recipients = []\<rparr>),
           ResolveX25519Encrypters [''did:ex:carol''],
           LocalCreateJWE [7] [Encrypter ''did:ex:carol''] None None]\<rparr>)"
  by (simp add: createJWE_def resolve_def Let_def ex_defs)

text \<open>
  C5. The source reads \<open>didDoc.publicKey[0].publicKeyHex\<close> before the \<open>try\<close>. When the
  first recipient's document has no \<open>publicKey\<close> entry, that read throws a
  \<open>TypeError\<close>: \<open>createJWE\<close> fails after the one call to the resolver, without asking the
  provider and without trying the local path.
\<close>

theorem createJWE_empty_publicKey:
  assumes "priv_client (self w) = Some client"
    and "priv_resolver (self w) (nth_js recipients 0) = Inr didDoc"
    and "publicKey didDoc = []"
  shows "createJWE e w cleartext recipients options
           = (Inl TypeError, w\<lparr>calls := calls w @ [Resolve (nth_js recipients 0)]\<rparr>)"
  using assms by (simp add: createJWE_def resolve_def)

text \<open>
  C5 in the scenario: Bob's document has no \<open>publicKey\<close> entry. \<open>createJWE\<close> fails,
  although the local path would have produced an envelope for him.
\<close>

theorem createJWE_empty_publicKey_witness:
  "priv_resolver (self ex_bound) (nth_js [''did:ex:bob''] 0) = Inr \<lparr>publicKey = []\<rparr>
   \<and> createJWE ex_env ex_bound [7] [''did:ex:bob''] \<lparr>protectedHeader = None, aad = None\<rparr>
       = (Inl TypeError, ex_bound\<lparr>calls := [Resolve (Some ''did:ex:bob'')]\<rparr>)
   \<and> resolveX25519Encrypters ex_env [''did:ex:bob''] (priv_resolver (self ex_bound))
       = Inr [Encrypter ''did:ex:bob'']
   \<and> jwt_createJWE ex_env [7] [Encrypter ''did:ex:bob''] None None = Inr (JWE ''local'')"
proof -
  have client: "priv_client (self ex_bound) = Some \<lparr>connection = 1\<rparr>"
    by (simp add: ex_bound_def ex_world_def ex_did_def)
  have resolved: "priv_resolver (self ex_bound) (nth_js [''did:ex:bob''] 0) = Inr \<lparr>publicKey = []\<rparr>"
    by (simp add: ex_bound_def ex_world_def ex_did_def ex_resolver_def)
  have no_keys: "publicKey \<lparr>publicKey = []\<rparr> = []"
    by simp
  have no_calls: "calls ex_bound = []"
    by (simp add: ex_bound_def ex_world_def)
  have local: "resolveX25519Encrypters ex_env [''did:ex:bob''] (priv_resolver (self ex_bound))
       = Inr [Encrypter ''did:ex:bob'']"
     "jwt_createJWE ex_env [7] [Encrypter ''did:ex:bob''] None None = Inr (JWE ''local'')"
    by (simp_all add: ex_env_def)
  show ?thesis
    using createJWE_empty_publicKey [OF client resolved no_keys, of ex_env "[7]"
        "\<lparr>protectedHeader = None, aad = None\<rparr>"] resolved no_calls local
    by simp
qed

section \<open>Provider binding and lifecycle\<close>

text \<open>
  C6. \<open>setProvider\<close> on an object without a client binds the connection, and a second
  call with the same connection changes nothing; on an object bound to the same connection
  it changes nothing; on an object bound to another connection it fails with
  \<open>ProviderConflict\<close> and the binding stays.
\<close>

theorem setProvider_binding:
  "(priv_client this = None \<longrightarrow>
      setProvider c this = (Inr (), this\<lparr>priv_client := Some \<lparr>connection = c\<rparr>\<rparr>)
      \<and> setProvider c (snd (setProvider c this)) = (Inr (), snd (setProvider c this)))
   \<and> (priv_client this = Some client \<and> connection client = c \<longrightarrow>
      setProvider c this = (Inr (), this))
   \<and> (priv_client this = Some client \<and> connection client \<noteq> c \<longrightarrow>
      setProvider c this = (Inl ProviderConflict, this)
      \<and> priv_client (snd (setProvider c this)) = Some client)"
  by (simp add: setProvider_def)

text \<open>C6 in the scenario: connection 1 on the unbound object, then connections 1 and 2 on the object bound to 1.\<close>

theorem setProvider_binding_witness:
  "priv_client ex_did = None
   \<and> setProvider 1 ex_did = (Inr (), ex_did\<lparr>priv_client := Some \<lparr>connection = 1\<rparr>\<rparr>)
   \<and> priv_client (self ex_bound) = Some \<lparr>connection = 1\<rparr>
   \<and> setProvider 1 (self ex_bound) = (Inr (), self ex_bound)
   \<and> setProvider 2 (self ex_bound) = (Inl ProviderConflict, self ex_bound)"
proof -
  have unbound: "priv_client ex_did = None"
    by (simp add: ex_did_def)
  have bound: "priv_client (self ex_bound) = Some \<lparr>connection = 1\<rparr>"
    by (simp add: ex_bound_def ex_world_def ex_did_def)
  have same: "connection \<lparr>connection = 1\<rparr> = (1::nat)" and other: "connection \<lparr>connection = 1\<rparr> \<noteq> (2::nat)"
    by simp_all
  show ?thesis
    using setProvider_binding [of ex_did 1] unbound
      setProvider_binding [of "self ex_bound" 1 "\<lparr>connection = 1\<rparr>"]
      setProvider_binding [of "self ex_bound" 2 "\<lparr>connection = 1\<rparr>"] bound same other
    by simp
qed

section \<open>The payload of a verified envelope\<close>

text \<open>
  C7. When the header carries a \<open>kid\<close>, the resolver answers and the signature verifies,
  \<open>verifyJWS\<close> succeeds whether or not the second segment decodes: if decoding throws,
  the result has the \<open>kid\<close> and no payload; if it succeeds, the result has the \<open>kid\<close>
  and the decoded payload.
\<close>

theorem verifyJWS_payload_optional:
  assumes compact: "(case input of Compact c \<Rightarrow> Inr c | Dag d \<Rightarrow> fromDagJWS e d) = Inr s"
    and header: "base64urlToJSON e (nth_js (split_dot s) 0) = Inr header"
    and has_kid: "kid header = Some k" "k \<noteq> []"
    and resolved: "priv_resolver (self w) (Some k) = Inr doc"
    and signature_ok: "jwt_verifyJWS e s (publicKey doc) = Inr ()"
  shows "(\<forall>err. base64urlToJSON e (nth_js (split_dot s) 1) = Inl err \<longrightarrow>
            fst (verifyJWS e w input) = Inr \<lparr>verified_kid = k, verified_payload = None\<rparr>)
       \<and> (\<forall>p. base64urlToJSON e (nth_js (split_dot s) 1) = Inr p \<longrightarrow>
            fst (verifyJWS e w input) = Inr \<lparr>verified_kid = k, verified_payload = Some p\<rparr>)"
  using assms by (simp add: verifyJWS_def resolve_def)

text \<open>C7 in the scenario: a payload that is a content identifier, and one that is JSON.\<close>

theorem verifyJWS_payload_optional_witness:
  "base64urlToJSON ex_env (nth_js (split_dot ''HEADER.bafyCID.SIG'') 1) = Inl (Thrown ''Unexpected token'')
   \<and> fst (verifyJWS ex_env ex_world (Compact ''HEADER.bafyCID.SIG''))
       = Inr \<lparr>verified_kid = ''did:ex:alice#k1'', verified_payload = None\<rparr>
   \<and> base64urlToJSON ex_env (nth_js (split_dot ''HEADER.PAYLOAD.SIG'') 1) = Inr ex_payload
   \<and> fst (verifyJWS ex_env ex_world (Compact ''HEADER.PAYLOAD.SIG''))
       = Inr \<lparr>verified_kid = ''did:ex:alice#k1'', verified_payload = Some ex_payload\<rparr>"
proof -
  have compact1: "(case Compact ''HEADER.bafyCID.SIG'' of Compact c \<Rightarrow> Inr c
                  | Dag d \<Rightarrow> fromDagJWS ex_env d) = Inr ''HEADER.bafyCID.SIG''"
    and compact2: "(case Compact ''HEADER.PAYLOAD.SIG'' of Compact c \<Rightarrow> Inr c
                  | Dag d \<Rightarrow> fromDagJWS ex_env d) = Inr ''HEADER.PAYLOAD.SIG''"
    by simp_all
  have header1: "base64urlToJSON ex_env (nth_js (split_dot ''HEADER.bafyCID.SIG'') 0) = Inr ex_header"
    and header2: "base64urlToJSON ex_env (nth_js (split_dot ''HEADER.PAYLOAD.SIG'') 0) = Inr ex_header"
    by (simp_all add: ex_env_def)
  have has_kid: "kid ex_header = Some ''did:ex:alice#k1''" "''did:ex:alice#k1'' \<noteq> []"
    by (simp_all add: ex_header_def)
  have resolved: "priv_resolver (self ex_world) (Some ''did:ex:alice#k1'') = Inr \<lparr>publicKey = [alice_key]\<rparr>"
    by (simp add: ex_world_def ex_did_def ex_resolver_def)
  have sig1: "jwt_verifyJWS ex_env ''HEADER.bafyCID.SIG'' (publicKey \<lparr>publicKey = [alice_key]\<rparr>) = Inr ()"
    and sig2: "jwt_verifyJWS ex_env ''HEADER.PAYLOAD.SIG'' (publicKey \<lparr>publicKey = [alice_key]\<rparr>) = Inr ()"
    by (simp_all add: ex_env_def)
  have payload1: "base64urlToJSON ex_env (nth_js (split_dot ''HEADER.bafyCID.SIG'') 1)
                    = Inl (Thrown ''Unexpected token'')"
    and payload2: "base64urlToJSON ex_env (nth_js (split_dot ''HEADER.PAYLOAD.SIG'') 1) = Inr ex_payload"
    by (simp_all add: ex_env_def)
  show ?thesis
    using verifyJWS_payload_optional [OF compact1 header1 has_kid resolved sig1]
      verifyJWS_payload_optional [OF compact2 header2 has_kid resolved sig2]
      payload1 payload2
    by simp
qed

section \<open>Deauthentication\<close>

text \<open>
  C8. In every state, \<open>deauthenticate\<close> leaves no client and no identifier:
  \<open>authenticated\<close> is false and \<open>id\<close> fails with \<open>NotAuthenticated\<close>.
\<close>

theorem deauthenticate_clears:
  "priv_client (deauthenticate this) = None
   \<and> priv_id (deauthenticate this) = None
   \<and> \<not> authenticated (deauthenticate this)
   \<and> DID_id (deauthenticate this) = Inl NotAuthenticated"
  by (simp add: deauthenticate_def clearProvider_def authenticated_def DID_id_def)

section \<open>The options object of createDagJWS\<close>

text \<open>
  C9. When \<open>encodePayload\<close> returns a content identifier and a linked block,
  \<open>createDagJWS\<close> assigns the base64 encoding of the block to the \<open>linkedBlock\<close>
  property of the caller's options object: the object at the reference \<open>options\<close> holds
  it when the call is over, whether \<open>createJWS\<close> then succeeds or throws. The
  \<open>protected\<close> property of that object and every other object are untouched.
\<close>

theorem createDagJWS_assigns_linkedBlock:
  assumes encoded: "encodePayload e payload0 = Inr (cid, linkedBlock)"
  shows "opt_linkedBlock (objects (snd (createDagJWS e w payload0 options)) options)
           = Some (encodeBase64 e linkedBlock)
       \<and> opt_protected (objects (snd (createDagJWS e w payload0 options)) options)
           = opt_protected (objects w options)
       \<and> (\<forall>r. r \<noteq> options \<longrightarrow>
             objects (snd (createDagJWS e w payload0 options)) r = objects w r)"
proof -
  let ?w1 = "w\<lparr>objects := (objects w)
               (options := (objects w options)
                  \<lparr>opt_linkedBlock := Some (encodeBase64 e linkedBlock)\<rparr>)\<rparr>"
  have after: "objects (snd (createDagJWS e w payload0 options))
                 = objects (snd (createJWS e ?w1 (encodeBase64Url e (bytes cid)) options))"
    using encoded by (simp add: createDagJWS_def Let_def split: prod.splits sum.splits)
  show ?thesis
    unfolding after by (simp add: createJWS_objects)
qed

text \<open>
  C9 in the scenario: the caller's object at reference 4, once on the authenticated object
  (the call succeeds) and once on the object without a provider (the call throws
  \<open>NoProvider\<close>, and the object is changed all the same).
\<close>

theorem createDagJWS_assigns_linkedBlock_witness:
  "encodePayload ex_env ex_payload = Inr (CID [1, 2, 3], [9, 9])
   \<and> opt_linkedBlock (objects ex_signed_in 4) = None
   \<and> opt_linkedBlock (objects (snd (createDagJWS ex_env ex_signed_in ex_payload 4)) 4) = Some ''CQk=''
   \<and> objects (snd (createDagJWS ex_env ex_signed_in ex_payload 4)) 5 = objects ex_signed_in 5
   \<and> fst (createDagJWS ex_env ex_world ex_payload 4) = Inl NoProvider
   \<and> opt_linkedBlock (objects (snd (createDagJWS ex_env ex_world ex_payload 4)) 4) = Some ''CQk=''"
proof -
  have encoded: "encodePayload ex_env ex_payload = Inr (CID [1, 2, 3], [9, 9])"
    by (simp add: ex_env_def)
  have before: "opt_linkedBlock (objects ex_signed_in 4) = None"
    by (simp add: ex_signed_in_def ex_world_def)
  have base64: "encodeBase64 ex_env [9, 9] = ''CQk=''"
    by (simp add: ex_env_def)
  have thrown: "fst (createDagJWS ex_env ex_world ex_payload 4) = Inl NoProvider"
    by (simp add: createDagJWS_def createJWS_def ex_env_def ex_world_def ex_did_def)
  show ?thesis
    using createDagJWS_assigns_linkedBlock [OF encoded, of ex_signed_in 4]
      createDagJWS_assigns_linkedBlock [OF encoded, of ex_world 4] encoded before base64 thrown
    by simp
qed

section \<open>Clearing the provider\<close>

text \<open>
  C10. On an authenticated object, \<open>clearProvider\<close> removes the client and nothing else:
  \<open>authenticated\<close> still holds and \<open>id\<close> returns the same identifier.
\<close>

theorem clearProvider_keeps_identifier:
  assumes "authenticated this"
  shows "\<exists>i. DID_id this = Inr i
       \<and> clearProvider this = this\<lparr>priv_client := None\<rparr>
       \<and> priv_client (clearProvider this) = None
       \<and> priv_id (clearProvider this) = Some i
       \<and> authenticated (clearProvider this)
       \<and> DID_id (clearProvider this) = Inr i"
  using assms by (auto simp: clearProvider_def authenticated_def DID_id_def)

text \<open>C10 in the scenario: the object bound to connection 1 and authenticated as Alice.\<close>

theorem clearProvider_keeps_identifier_witness:
  "authenticated ex_authenticated
   \<and> priv_client ex_authenticated = Some \<lparr>connection = 1\<rparr>
   \<and> priv_client (clearProvider ex_authenticated) = None
   \<and> authenticated (clearProvider ex_authenticated)
   \<and> DID_id (clearProvider ex_authenticated) = Inr ''did:ex:alice''"
proof -
  have a: "authenticated ex_authenticated"
    by (simp add: authenticated_def ex_authenticated_def ex_did_def)
  have b: "DID_id ex_authenticated = Inr ''did:ex:alice''"
    by (simp add: DID_id_def ex_authenticated_def ex_did_def)
  have c: "priv_client ex_authenticated = Some \<lparr>connection = 1\<rparr>"
    by (simp add: ex_authenticated_def ex_did_def)
  show ?thesis
    using clearProvider_keeps_identifier [OF a] a b c by auto
qed

end
